theory Spec2Isabelle
  imports Complex_Main
begin

section \<open>Mortgage planner: the amortization schedule of \<open>src/app/page.tsx\<close>\<close>

text \<open>
  The embedding covers \<open>calculateSchedule\<close> and the helper \<open>addMonths\<close> it calls.

  A TypeScript \<open>number\<close> that enters the arithmetic of the schedule (principal, annual
  rate, term, balances and payments) is a \<^typ>\<open>real\<close>: sums, differences, products and
  quotients are exact. The rounding and the overflow of IEEE doubles are outside the
  model, and so are a principal, a rate or a term that is \<open>NaN\<close> or infinite. The one
  place where the source itself asks whether a number is finite is the override looked
  up for a month; override values therefore range over \<open>number\<close> below, which keeps
  \<open>NaN\<close> and the two infinities apart from the finite values.

  The loop counter \<open>monthIndex\<close> starts at 1 and is only ever incremented, so it is a
  \<^typ>\<open>nat\<close>; it is also the key under which an override is looked up.
\<close>

subsection \<open>Override values\<close>

datatype number = Finite real | NaN | PosInfinity | NegInfinity

text \<open>
  \<open>Number.isFinite(v)\<close> holds exactly of the values \<open>Finite x\<close>; the model tests it by
  matching on that constructor, which also yields the real number \<open>x\<close> to compute with.
\<close>

text \<open>
  \<open>type ActualPaymentsMap = Record<number, number>\<close>: a lookup of an absent key yields
  \<open>undefined\<close>, which is \<open>None\<close> here.
\<close>

type_synonym ActualPaymentsMap = "nat \<rightharpoonup> number"

subsection \<open>Due dates\<close>

text \<open>
  A \<open>Date\<close> is kept as its local calendar fields: year, month (0 for January up to 11)
  and day of the month; \<open>InvalidDate\<close> is the date whose time value is \<open>NaN\<close>. The time
  of day, which \<open>setMonth\<close> leaves alone, is not kept, and the range of years a
  \<open>Date\<close> can hold is not bounded.

  \<open>calculateSchedule\<close> obtains its first due date from \<open>parseMonthInput(startMonth)\<close>,
  which parses a string and falls back on the clock (\<open>new Date()\<close>) when the string is
  malformed. That date is the parameter \<open>firstDueDate\<close> of the model, named after the
  constant of the source that holds it, so that every result below holds for whatever
  \<open>parseMonthInput\<close> returns.
\<close>

datatype Date = InvalidDate | Date (year: int) (month: int) (day: int)

definition isLeapYear :: "int \<Rightarrow> bool" where
  "isLeapYear y = (y mod 4 = 0 \<and> (y mod 100 \<noteq> 0 \<or> y mod 400 = 0))"

definition daysInMonth :: "int \<Rightarrow> int \<Rightarrow> int" where
  "daysInMonth y m =
     (if m = 1 then (if isLeapYear y then 29 else 28)
      else if m = 3 \<or> m = 5 \<or> m = 8 \<or> m = 10 then 30
      else 31)"

text \<open>
  \<open>cloned.setMonth(cloned.getMonth() + count)\<close>: the month is normalised into the year
  (twelve months carry one year), and a day of the month that the target month does not
  have runs over into the following month, as \<open>setMonth\<close> does (31 January plus one
  month is 3 March, or 2 March in a leap year).
\<close>

fun addMonths :: "Date \<Rightarrow> int \<Rightarrow> Date" where
  "addMonths InvalidDate count = InvalidDate"
| "addMonths (Date y m d) count =
     (let total = m + count;
          y' = y + total div 12;
          m' = total mod 12
      in if d \<le> daysInMonth y' m' then Date y' m' d
         else Date y' (m' + 1) (d - daysInMonth y' m'))"

subsection \<open>Schedule rows\<close>

record ScheduleRow =
  monthIndex :: nat
  dueDate :: Date
  plannedPayment :: real
  plannedPrincipal :: real
  plannedInterest :: real
  actualPayment :: real
  interestPaid :: real
  principalPaid :: real
  extraPayment :: real
  shortfall :: real
  balanceAfter :: real

definition epsilon :: real where
  "epsilon = 1 / 100"

text \<open>
  The body of the \<open>while\<close> loop up to and including \<open>schedule.push\<close>: the row of the
  month \<open>monthIndex\<close>, computed from the balance that enters the month.
\<close>

definition scheduleRow ::
  "real \<Rightarrow> real \<Rightarrow> ActualPaymentsMap \<Rightarrow> real \<Rightarrow> nat \<Rightarrow> Date \<Rightarrow> ScheduleRow" where
  "scheduleRow monthlyRate termMonths overrides balance monthIdx due =
     (let monthsRemaining = max (termMonths - real monthIdx + 1) 1;
          plannedPrincipal' = balance / monthsRemaining;
          plannedInterest' = balance * monthlyRate;
          plannedPayment' = plannedPrincipal' + plannedInterest';
          actualPayment' =
            (case overrides monthIdx of
               Some (Finite overrideValue) \<Rightarrow> overrideValue
             | _ \<Rightarrow> plannedPayment');
          interestPaid' = min actualPayment' plannedInterest';
          principalPaid0 = max (actualPayment' - interestPaid') 0;
          principalPaid' = (if principalPaid0 > balance then balance else principalPaid0);
          balanceAfter' = max (balance - principalPaid') 0;
          extraPayment' = max (actualPayment' - plannedPayment') 0;
          shortfall' = max (plannedPayment' - actualPayment') 0
      in \<lparr> monthIndex = monthIdx,
           dueDate = due,
           plannedPayment = plannedPayment',
           plannedPrincipal = min plannedPrincipal' balance,
           plannedInterest = plannedInterest',
           actualPayment = actualPayment',
           interestPaid = interestPaid',
           principalPaid = principalPaid',
           extraPayment = extraPayment',
           shortfall = shortfall',
           balanceAfter = balanceAfter' \<rparr>)"

text \<open>
  The \<open>while\<close> loop. Its state is the balance, the month index, the due date and the
  schedule built so far; the \<open>break\<close> after the push is the inner \<open>if\<close>.
\<close>

function scheduleLoop ::
  "real \<Rightarrow> real \<Rightarrow> ActualPaymentsMap \<Rightarrow> real \<Rightarrow> nat \<Rightarrow> Date \<Rightarrow> ScheduleRow list
     \<Rightarrow> ScheduleRow list" where
  "scheduleLoop monthlyRate termMonths overrides balance monthIdx due schedule =
     (if (real monthIdx \<le> termMonths \<or> balance > epsilon) \<and> monthIdx < 1200 then
        (let row = scheduleRow monthlyRate termMonths overrides balance monthIdx due;
             schedule' = schedule @ [row];
             balance' = balanceAfter row
         in if balance' \<le> epsilon then schedule'
            else scheduleLoop monthlyRate termMonths overrides balance' (monthIdx + 1)
                   (addMonths due 1) schedule')
      else schedule)"
  by pat_completeness auto
termination
  by (relation "measure (\<lambda>(r, t, ov, b, i, d, s). 1200 - i)") auto

declare scheduleLoop.simps [simp del]

text \<open>
  The parameter \<open>principal\<close> of the source is written \<open>principal'\<close>: the plain name
  is a constant of the library.
\<close>

definition calculateSchedule ::
  "real \<Rightarrow> real \<Rightarrow> real \<Rightarrow> Date \<Rightarrow> ActualPaymentsMap \<Rightarrow> ScheduleRow list" where
  "calculateSchedule principal' annualRate termMonths firstDueDate overrides =
     (if principal' \<le> 0 \<or> termMonths \<le> 0 then []
      else scheduleLoop (annualRate / 100 / 12) termMonths overrides principal' 1
             firstDueDate [])"

subsection \<open>The balance that enters a month\<close>

text \<open>
  The loop starts with \<open>balance = principal\<close> and ends every iteration with
  \<open>balance = balanceAfter\<close>: the balance that enters the row at position \<open>k\<close> (counted
  from 0) of a schedule is the principal for the first row and the \<open>balanceAfter\<close> of the
  row before it for every other row.
\<close>

definition balanceBefore :: "real \<Rightarrow> ScheduleRow list \<Rightarrow> nat \<Rightarrow> real" where
  "balanceBefore principal' rows k =
     (if k = 0 then principal' else balanceAfter (rows ! (k - 1)))"

subsection \<open>Two override maps used as test inputs\<close>

text \<open>
  \<open>exampleOverrides\<close>: month 1 is overpaid, month 2 carries a negative amount, month 3
  carries \<open>NaN\<close>, and every other month has no entry.
\<close>

definition exampleOverrides :: ActualPaymentsMap where
  "exampleOverrides = [1 \<mapsto> Finite 612, 2 \<mapsto> Finite (- 50), 3 \<mapsto> NaN]"


section \<open>Unfolding the loop\<close>

lemma scheduleLoop_stop:
  assumes "\<not> ((real i \<le> t \<or> b > epsilon) \<and> i < 1200)"
  shows "scheduleLoop r t ov b i d acc = acc"
  using assms by (subst scheduleLoop.simps) auto

lemma scheduleLoop_break:
  assumes "(real i \<le> t \<or> b > epsilon) \<and> i < 1200"
    and "balanceAfter (scheduleRow r t ov b i d) \<le> epsilon"
  shows "scheduleLoop r t ov b i d acc = acc @ [scheduleRow r t ov b i d]"
  using assms by (subst scheduleLoop.simps) (simp add: Let_def)

lemma scheduleLoop_continue:
  assumes "(real i \<le> t \<or> b > epsilon) \<and> i < 1200"
    and "\<not> balanceAfter (scheduleRow r t ov b i d) \<le> epsilon"
  shows "scheduleLoop r t ov b i d acc =
    scheduleLoop r t ov (balanceAfter (scheduleRow r t ov b i d)) (i + 1) (addMonths d 1)
      (acc @ [scheduleRow r t ov b i d])"
  using assms by (subst scheduleLoop.simps) (simp add: Let_def)

lemma scheduleLoop_append:
  "scheduleLoop r t ov b i d acc = acc @ scheduleLoop r t ov b i d []"
proof (induction "1200 - i" arbitrary: b i d acc rule: less_induct)
  case less
  show ?case
  proof (cases "(real i \<le> t \<or> b > epsilon) \<and> i < 1200")
    case False
    then show ?thesis by (simp add: scheduleLoop_stop)
  next
    case True
    define row where "row = scheduleRow r t ov b i d"
    show ?thesis
    proof (cases "balanceAfter row \<le> epsilon")
      case True
      with \<open>(real i \<le> t \<or> b > epsilon) \<and> i < 1200\<close> show ?thesis
        unfolding row_def by (simp add: scheduleLoop_break)
    next
      case False
      from True have lt: "1200 - (i + 1) < 1200 - i" by arith
      have a: "scheduleLoop r t ov (balanceAfter row) (i + 1) (addMonths d 1) (acc @ [row])
               = (acc @ [row]) @ scheduleLoop r t ov (balanceAfter row) (i + 1) (addMonths d 1) []"
        by (rule less [OF lt])
      have b: "scheduleLoop r t ov (balanceAfter row) (i + 1) (addMonths d 1) [row]
               = [row] @ scheduleLoop r t ov (balanceAfter row) (i + 1) (addMonths d 1) []"
        by (rule less [OF lt])
      from True False have
        "scheduleLoop r t ov b i d acc =
           scheduleLoop r t ov (balanceAfter row) (i + 1) (addMonths d 1) (acc @ [row])"
        and "scheduleLoop r t ov b i d [] =
           scheduleLoop r t ov (balanceAfter row) (i + 1) (addMonths d 1) ([] @ [row])"
        unfolding row_def by (rule scheduleLoop_continue)+
      with a b show ?thesis by simp
    qed
  qed
qed

text \<open>The loop, started on the empty schedule, row by row.\<close>

lemma scheduleLoop_rows:
  "scheduleLoop r t ov b i d [] =
     (if (real i \<le> t \<or> b > epsilon) \<and> i < 1200 then
        scheduleRow r t ov b i d #
          (if balanceAfter (scheduleRow r t ov b i d) \<le> epsilon then []
           else scheduleLoop r t ov (balanceAfter (scheduleRow r t ov b i d)) (i + 1)
                  (addMonths d 1) [])
      else [])"
proof (cases "(real i \<le> t \<or> b > epsilon) \<and> i < 1200")
  case False
  then show ?thesis using scheduleLoop_stop [OF False] by auto
next
  case True
  show ?thesis
  proof (cases "balanceAfter (scheduleRow r t ov b i d) \<le> epsilon")
    case True
    with \<open>(real i \<le> t \<or> b > epsilon) \<and> i < 1200\<close> show ?thesis
      by (simp add: scheduleLoop_break)
  next
    case False
    with True have
      "scheduleLoop r t ov b i d [] =
         scheduleLoop r t ov (balanceAfter (scheduleRow r t ov b i d)) (i + 1) (addMonths d 1)
           ([] @ [scheduleRow r t ov b i d])"
      by (rule scheduleLoop_continue)
    also have "\<dots> = [scheduleRow r t ov b i d] @
         scheduleLoop r t ov (balanceAfter (scheduleRow r t ov b i d)) (i + 1) (addMonths d 1) []"
      by (simp only: append_Nil) (rule scheduleLoop_append)
    finally show ?thesis using True False by simp
  qed
qed

text \<open>
  Induction along the iterations of the loop: a property of the rows holds when it holds
  of the empty schedule where the loop condition fails, of the single row after which the
  loop breaks, and of a row followed by the rows of the remaining iterations.
\<close>

lemma scheduleLoop_rows_induct [case_names stop last step]:
  assumes stop: "\<And>b i d. \<not> ((real i \<le> t \<or> b > epsilon) \<and> i < 1200) \<Longrightarrow> P b i d []"
    and last: "\<And>b i d. (real i \<le> t \<or> b > epsilon) \<and> i < 1200 \<Longrightarrow>
        balanceAfter (scheduleRow r t ov b i d) \<le> epsilon \<Longrightarrow>
        P b i d [scheduleRow r t ov b i d]"
    and step: "\<And>b i d. (real i \<le> t \<or> b > epsilon) \<and> i < 1200 \<Longrightarrow>
        \<not> balanceAfter (scheduleRow r t ov b i d) \<le> epsilon \<Longrightarrow>
        P (balanceAfter (scheduleRow r t ov b i d)) (i + 1) (addMonths d 1)
          (scheduleLoop r t ov (balanceAfter (scheduleRow r t ov b i d)) (i + 1)
             (addMonths d 1) []) \<Longrightarrow>
        P b i d (scheduleRow r t ov b i d #
          scheduleLoop r t ov (balanceAfter (scheduleRow r t ov b i d)) (i + 1)
            (addMonths d 1) [])"
  shows "P b i d (scheduleLoop r t ov b i d [])"
proof (induction "1200 - i" arbitrary: b i d rule: less_induct)
  case less
  show ?case
  proof (cases "(real i \<le> t \<or> b > epsilon) \<and> i < 1200")
    case False
    then have "scheduleLoop r t ov b i d [] = []" by (rule scheduleLoop_stop)
    with stop [OF False] show ?thesis by simp
  next
    case True
    show ?thesis
    proof (cases "balanceAfter (scheduleRow r t ov b i d) \<le> epsilon")
      case settled: True
      with True have "scheduleLoop r t ov b i d [] = [scheduleRow r t ov b i d]"
        by (simp add: scheduleLoop_break)
      with last [OF True settled] show ?thesis by simp
    next
      case False
      from True have "1200 - (i + 1) < 1200 - i" by arith
      then have "P (balanceAfter (scheduleRow r t ov b i d)) (i + 1) (addMonths d 1)
          (scheduleLoop r t ov (balanceAfter (scheduleRow r t ov b i d)) (i + 1)
             (addMonths d 1) [])"
        by (rule less)
      with True False have "P b i d (scheduleRow r t ov b i d #
          scheduleLoop r t ov (balanceAfter (scheduleRow r t ov b i d)) (i + 1)
            (addMonths d 1) [])"
        by (rule step)
      moreover from True False have "scheduleLoop r t ov b i d [] =
          scheduleRow r t ov b i d #
            scheduleLoop r t ov (balanceAfter (scheduleRow r t ov b i d)) (i + 1)
              (addMonths d 1) []"
        by (subst scheduleLoop_rows) simp
      ultimately show ?thesis by simp
    qed
  qed
qed

subsection \<open>Properties of one row\<close>

lemma scheduleRow_monthIndex [simp]: "monthIndex (scheduleRow r t ov b i d) = i"
  by (simp add: scheduleRow_def Let_def)

lemma scheduleRow_dueDate [simp]: "dueDate (scheduleRow r t ov b i d) = d"
  by (simp add: scheduleRow_def Let_def)

lemma scheduleRow_balanceAfter_nonneg: "0 \<le> balanceAfter (scheduleRow r t ov b i d)"
  by (simp add: scheduleRow_def Let_def)





lemma scheduleRow_actualPayment:
  "actualPayment (scheduleRow r t ov b i d) =
     (case ov i of Some (Finite v) \<Rightarrow> v | _ \<Rightarrow> plannedPayment (scheduleRow r t ov b i d))"
  by (simp add: scheduleRow_def Let_def split: option.splits number.splits)

lemma scheduleRow_fields:
  "plannedPayment (scheduleRow r t ov b i d) = b / max (t - real i + 1) 1 + b * r"
  "plannedInterest (scheduleRow r t ov b i d) = b * r"
  "interestPaid (scheduleRow r t ov b i d) =
     min (actualPayment (scheduleRow r t ov b i d)) (plannedInterest (scheduleRow r t ov b i d))"
  "principalPaid (scheduleRow r t ov b i d) =
     (if max (actualPayment (scheduleRow r t ov b i d)
               - interestPaid (scheduleRow r t ov b i d)) 0 > b then b
      else max (actualPayment (scheduleRow r t ov b i d)
               - interestPaid (scheduleRow r t ov b i d)) 0)"
  "balanceAfter (scheduleRow r t ov b i d) = max (b - principalPaid (scheduleRow r t ov b i d)) 0"
  "extraPayment (scheduleRow r t ov b i d) =
     max (actualPayment (scheduleRow r t ov b i d) - plannedPayment (scheduleRow r t ov b i d)) 0"
  "shortfall (scheduleRow r t ov b i d) =
     max (plannedPayment (scheduleRow r t ov b i d) - actualPayment (scheduleRow r t ov b i d)) 0"
  by (simp_all add: scheduleRow_def Let_def)

lemma scheduleRow_negative_payment:
  assumes "0 \<le> r" and "0 \<le> b" and "ov i = Some (Finite v)" and "v < 0"
  shows "interestPaid (scheduleRow r t ov b i d) = v"
    and "principalPaid (scheduleRow r t ov b i d) = 0"
    and "extraPayment (scheduleRow r t ov b i d) = 0"
    and "balanceAfter (scheduleRow r t ov b i d) = b"
proof -
  let ?row = "scheduleRow r t ov b i d"
  from assms(3) have actual: "actualPayment ?row = v"
    by (simp add: scheduleRow_actualPayment)
  from assms(1,2) have interest: "0 \<le> plannedInterest ?row"
    by (simp add: scheduleRow_fields)
  have "0 < max (t - real i + 1) 1" by simp
  with assms(2) have "0 \<le> b / max (t - real i + 1) 1" by (rule divide_nonneg_pos)
  with interest have planned: "0 \<le> plannedPayment ?row"
    by (simp add: scheduleRow_fields)
  from actual interest assms(4) show paid: "interestPaid ?row = v"
    by (simp add: scheduleRow_fields(3))
  with actual assms(2) show principal: "principalPaid ?row = 0"
    by (simp add: scheduleRow_fields(4))
  from actual planned assms(4) show "extraPayment ?row = 0"
    by (simp add: scheduleRow_fields(6))
  from principal assms(2) show "balanceAfter ?row = b"
    by (simp add: scheduleRow_fields(5))
qed


subsection \<open>The rows of the loop\<close>

lemma balanceBefore_0 [simp]: "balanceBefore b rows 0 = b"
  by (simp add: balanceBefore_def)

lemma balanceBefore_Suc_Cons [simp]:
  "balanceBefore b (row # rows) (Suc k) = balanceBefore (balanceAfter row) rows k"
  by (cases k) (simp_all add: balanceBefore_def)

lemma scheduleLoop_length: "length (scheduleLoop r t ov b i d []) \<le> 1200 - i"
  by (induction b i d rule: scheduleLoop_rows_induct [of t _ r ov]) auto

lemma scheduleLoop_nth:
  "k < length (scheduleLoop r t ov b i d []) \<Longrightarrow>
     scheduleLoop r t ov b i d [] ! k =
       scheduleRow r t ov (balanceBefore b (scheduleLoop r t ov b i d []) k) (i + k)
         (dueDate (scheduleLoop r t ov b i d [] ! k))"
proof (induction b i d arbitrary: k rule: scheduleLoop_rows_induct [of t _ r ov])
  case (stop b i d)
  then show ?case by simp
next
  case (last b i d)
  then show ?case by simp
next
  case (step b i d)
  show ?case
  proof (cases k)
    case 0
    then show ?thesis by simp
  next
    case (Suc j)
    with step.prems step.IH [of j] show ?thesis by simp
  qed
qed




lemma exampleOverrides_values:
  "map exampleOverrides [1, 2, 3, 4] = [Some (Finite 612), Some (Finite (- 50)), Some NaN, None]"
  by (simp add: exampleOverrides_def)

lemma example_schedule:
  "calculateSchedule 1200 12 4 (Date 2025 11 1) exampleOverrides =
     [\<lparr> monthIndex = 1, dueDate = Date 2025 11 1, plannedPayment = 312, plannedPrincipal = 300,
         plannedInterest = 12, actualPayment = 612, interestPaid = 12, principalPaid = 600,
         extraPayment = 300, shortfall = 0, balanceAfter = 600 \<rparr>,
      \<lparr> monthIndex = 2, dueDate = Date 2026 0 1, plannedPayment = 206, plannedPrincipal = 200,
         plannedInterest = 6, actualPayment = - 50, interestPaid = - 50, principalPaid = 0,
         extraPayment = 0, shortfall = 256, balanceAfter = 600 \<rparr>,
      \<lparr> monthIndex = 3, dueDate = Date 2026 1 1, plannedPayment = 306, plannedPrincipal = 300,
         plannedInterest = 6, actualPayment = 306, interestPaid = 6, principalPaid = 300,
         extraPayment = 0, shortfall = 0, balanceAfter = 300 \<rparr>,
      \<lparr> monthIndex = 4, dueDate = Date 2026 2 1, plannedPayment = 303, plannedPrincipal = 300,
         plannedInterest = 3, actualPayment = 303, interestPaid = 3, principalPaid = 300,
         extraPayment = 0, shortfall = 0, balanceAfter = 0 \<rparr>]"
  by (simp add: calculateSchedule_def scheduleLoop_rows scheduleRow_def epsilon_def
      exampleOverrides_def Let_def daysInMonth_def isLeapYear_def)

subsection \<open>The rows of a schedule\<close>

text \<open>
  Every row of a schedule is the loop body run on the balance that enters it, and that
  balance is never negative.
\<close>

lemma calculateSchedule_rows:
  "0 < p \<Longrightarrow> 0 < t \<Longrightarrow>
     calculateSchedule p a t d ov = scheduleLoop (a / 100 / 12) t ov p 1 d []"
  by (simp add: calculateSchedule_def)

lemma calculateSchedule_nth:
  assumes "k < length (calculateSchedule p a t d ov)"
  shows "calculateSchedule p a t d ov ! k =
     scheduleRow (a / 100 / 12) t ov (balanceBefore p (calculateSchedule p a t d ov) k) (Suc k)
       (dueDate (calculateSchedule p a t d ov ! k))"
    and "0 \<le> balanceBefore p (calculateSchedule p a t d ov) k"
proof -
  let ?rows = "calculateSchedule p a t d ov"
  from assms have pos: "0 < p" "0 < t"
    by (auto simp: calculateSchedule_def split: if_splits)
  then have rows: "?rows = scheduleLoop (a / 100 / 12) t ov p 1 d []"
    by (rule calculateSchedule_rows)
  have nth: "?rows ! j =
     scheduleRow (a / 100 / 12) t ov (balanceBefore p ?rows j) (Suc j) (dueDate (?rows ! j))"
    if "j < length ?rows" for j
    using that scheduleLoop_nth [of j "a / 100 / 12" t ov p 1 d] unfolding rows by simp
  from assms show "?rows ! k =
     scheduleRow (a / 100 / 12) t ov (balanceBefore p ?rows k) (Suc k) (dueDate (?rows ! k))"
    by (rule nth)
  show "0 \<le> balanceBefore p ?rows k"
  proof (cases k)
    case 0
    with pos show ?thesis by simp
  next
    case (Suc j)
    with assms have "j < length ?rows" by simp
    then have "balanceAfter (?rows ! j) =
      balanceAfter (scheduleRow (a / 100 / 12) t ov (balanceBefore p ?rows j) (Suc j)
        (dueDate (?rows ! j)))"
      using nth [of j] by simp
    then have "0 \<le> balanceAfter (?rows ! j)"
      by (simp add: scheduleRow_balanceAfter_nonneg)
    with Suc show ?thesis by (simp add: balanceBefore_def)
  qed
qed

section \<open>Degenerate inputs\<close>

text \<open>
  C7. A principal or a term that is not positive yields the empty schedule, whatever the
  rate, the first due date and the overrides are; the result is a value, not an error.
\<close>

theorem degenerate_input_empty:
  "principal' \<le> 0 \<or> termMonths \<le> 0 \<Longrightarrow>
     calculateSchedule principal' annualRate termMonths firstDueDate overrides = []"
  by (simp add: calculateSchedule_def)

theorem degenerate_input_empty_witness:
  "((0::real) \<le> 0 \<or> (360::real) \<le> 0) \<and>
     calculateSchedule 0 (354 / 100) 360 (Date 2025 11 1) Map.empty = []"
  using degenerate_input_empty [of 0 360 "354 / 100" "Date 2025 11 1" Map.empty]
  by simp

section \<open>Termination and the cap on the number of rows\<close>

text \<open>
  C3. \<open>calculateSchedule\<close> is a total function: the loop is defined by recursion on
  \<open>1200 - monthIndex\<close>, which every iteration decreases. The schedule it returns has at
  most 1199 rows, for every input, and the rows carry the month indices 1, 2, 3, ... in
  order, since the index starts at 1 and grows by 1 with every row.
\<close>

theorem schedule_at_most_1199_rows:
  "length (calculateSchedule p a t d ov) \<le> 1199 \<and>
   map monthIndex (calculateSchedule p a t d ov) =
     [1 ..< Suc (length (calculateSchedule p a t d ov))]"
proof
  let ?rows = "calculateSchedule p a t d ov"
  show "length ?rows \<le> 1199"
    using scheduleLoop_length [of "a / 100 / 12" t ov p 1 d]
    by (simp add: calculateSchedule_def)
  show "map monthIndex ?rows = [1 ..< Suc (length ?rows)]"
  proof (rule nth_equalityI)
    show "length (map monthIndex ?rows) = length [1 ..< Suc (length ?rows)]"
      by (simp del: upt_Suc)
  next
    fix k assume "k < length (map monthIndex ?rows)"
    then have k: "k < length ?rows" by simp
    then have "monthIndex (?rows ! k) = Suc k"
      using calculateSchedule_nth(1) [OF k] scheduleRow_monthIndex
      by metis
    with k show "map monthIndex ?rows ! k = [1 ..< Suc (length ?rows)] ! k"
      by (simp del: upt_Suc)
  qed
qed

section \<open>Balances\<close>







section \<open>Reaching the end of the loan\<close>




section \<open>Payments\<close>

text \<open>
  C4. In every row the actual payment is the override stored for the row's month index
  when there is one and it is a finite number; otherwise (no entry, or an entry that is
  not finite) it is the row's planned payment. An absent entry thus means the planned
  payment, not a payment of 0.
\<close>

theorem actualPayment_override_or_planned:
  assumes "row \<in> set (calculateSchedule p a t d ov)"
  shows "actualPayment row =
     (case ov (monthIndex row) of
        Some (Finite v) \<Rightarrow> v
      | _ \<Rightarrow> plannedPayment row)"
proof -
  from assms obtain k where k: "k < length (calculateSchedule p a t d ov)"
    and row: "row = calculateSchedule p a t d ov ! k"
    by (auto simp: in_set_conv_nth)
  from calculateSchedule_nth(1) [OF k] obtain b d' where
    eq: "row = scheduleRow (a / 100 / 12) t ov b (Suc k) d'"
    unfolding row [symmetric] by blast
  have "actualPayment (scheduleRow (a / 100 / 12) t ov b (Suc k) d') =
     (case ov (monthIndex (scheduleRow (a / 100 / 12) t ov b (Suc k) d')) of
        Some (Finite v) \<Rightarrow> v
      | _ \<Rightarrow> plannedPayment (scheduleRow (a / 100 / 12) t ov b (Suc k) d'))"
    by (simp only: scheduleRow_actualPayment scheduleRow_monthIndex)
  then show ?thesis unfolding eq .
qed

theorem actualPayment_override_or_planned_witness:
  "map monthIndex (calculateSchedule 1200 12 4 (Date 2025 11 1) exampleOverrides) = [1, 2, 3, 4] \<and>
   map exampleOverrides [1, 2, 3, 4] = [Some (Finite 612), Some (Finite (- 50)), Some NaN, None] \<and>
   map actualPayment (calculateSchedule 1200 12 4 (Date 2025 11 1) exampleOverrides)
     = [612, - 50, 306, 303] \<and>
   map plannedPayment (calculateSchedule 1200 12 4 (Date 2025 11 1) exampleOverrides)
     = [312, 206, 306, 303] \<and>
   actualPayment (calculateSchedule 1200 12 4 (Date 2025 11 1) exampleOverrides ! 3) =
     (case exampleOverrides
        (monthIndex (calculateSchedule 1200 12 4 (Date 2025 11 1) exampleOverrides ! 3)) of
        Some (Finite v) \<Rightarrow> v
      | _ \<Rightarrow> plannedPayment (calculateSchedule 1200 12 4 (Date 2025 11 1) exampleOverrides ! 3))"
  using actualPayment_override_or_planned
    [of "calculateSchedule 1200 12 4 (Date 2025 11 1) exampleOverrides ! 3"
      1200 12 4 "Date 2025 11 1" exampleOverrides]
    exampleOverrides_values
  by (simp add: example_schedule)



text \<open>
  C10. When the annual rate is not negative and the override of a row's month is a finite
  negative number, the row reports that negative number as \<open>interestPaid\<close>, pays no
  principal, has no extra payment, and leaves the balance that entered the month
  unchanged: a negative payment does not raise the balance. (The balance that enters a
  month is never negative, so the planned interest is not negative either.)
\<close>

theorem negative_override_row:
  assumes rate: "0 \<le> a"
    and k: "k < length (calculateSchedule p a t d ov)"
    and ov: "ov (monthIndex (calculateSchedule p a t d ov ! k)) = Some (Finite v)"
    and neg: "v < 0"
  shows "interestPaid (calculateSchedule p a t d ov ! k) = v \<and>
         principalPaid (calculateSchedule p a t d ov ! k) = 0 \<and>
         extraPayment (calculateSchedule p a t d ov ! k) = 0 \<and>
         balanceAfter (calculateSchedule p a t d ov ! k) =
           balanceBefore p (calculateSchedule p a t d ov) k"
proof -
  let ?rows = "calculateSchedule p a t d ov"
  define b where "b = balanceBefore p ?rows k"
  define row where "row = scheduleRow (a / 100 / 12) t ov b (Suc k) (dueDate (?rows ! k))"
  from k have nonneg: "0 \<le> b"
    unfolding b_def by (rule calculateSchedule_nth(2))
  from k have eq: "?rows ! k = row"
    unfolding row_def b_def by (rule calculateSchedule_nth(1))
  from ov have ov': "ov (Suc k) = Some (Finite v)"
    unfolding eq by (simp add: row_def)
  from rate have "0 \<le> a / 100 / 12" by simp
  from scheduleRow_negative_payment
    [of "a / 100 / 12" b ov "Suc k" v t "dueDate (?rows ! k)", OF this nonneg ov' neg]
  have "interestPaid row = v \<and> principalPaid row = 0 \<and> extraPayment row = 0
          \<and> balanceAfter row = b"
    unfolding row_def by simp
  then show ?thesis unfolding eq b_def .
qed

theorem negative_override_row_witness:
  "(0::real) \<le> 12 \<and>
   Suc 0 < length (calculateSchedule 1200 12 4 (Date 2025 11 1) exampleOverrides) \<and>
   exampleOverrides (monthIndex (calculateSchedule 1200 12 4 (Date 2025 11 1) exampleOverrides ! Suc 0))
     = Some (Finite (- 50)) \<and>
   (- 50 :: real) < 0 \<and>
   interestPaid (calculateSchedule 1200 12 4 (Date 2025 11 1) exampleOverrides ! Suc 0) = - 50 \<and>
   principalPaid (calculateSchedule 1200 12 4 (Date 2025 11 1) exampleOverrides ! Suc 0) = 0 \<and>
   extraPayment (calculateSchedule 1200 12 4 (Date 2025 11 1) exampleOverrides ! Suc 0) = 0 \<and>
   balanceAfter (calculateSchedule 1200 12 4 (Date 2025 11 1) exampleOverrides ! Suc 0) =
     balanceBefore 1200 (calculateSchedule 1200 12 4 (Date 2025 11 1) exampleOverrides) (Suc 0)"
proof -
  let ?rows = "calculateSchedule 1200 12 4 (Date 2025 11 1) exampleOverrides"
  have rate: "(0::real) \<le> 12" by simp
  have len: "Suc 0 < length ?rows"
    by (simp add: example_schedule)
  have entry: "exampleOverrides (monthIndex (?rows ! Suc 0)) = Some (Finite (- 50))"
    using exampleOverrides_values by (simp add: example_schedule)
  have neg: "(- 50 :: real) < 0" by simp
  from rate len entry neg negative_override_row [OF rate len entry neg]
  show ?thesis by blast
qed

section \<open>The default loan\<close>

text \<open>
  C8. For a principal of 315000 at 3.54 percent over 360 months, starting in December
  2025, with no overrides, the schedule has a first row, and that row has a planned
  interest of 315000 * (0.0354 / 12) = 929.25, a planned principal of 315000 / 360 = 875,
  a planned payment of 1804.25 and a \<open>balanceAfter\<close> of 314125.
\<close>

theorem default_scenario_first_row:
  "calculateSchedule 315000 (354 / 100) 360 (Date 2025 11 1) Map.empty \<noteq> [] \<and>
   monthIndex (hd (calculateSchedule 315000 (354 / 100) 360 (Date 2025 11 1) Map.empty)) = 1 \<and>
   plannedInterest (hd (calculateSchedule 315000 (354 / 100) 360 (Date 2025 11 1) Map.empty))
     = 315000 * (354 / 10000 / 12) \<and>
   plannedInterest (hd (calculateSchedule 315000 (354 / 100) 360 (Date 2025 11 1) Map.empty))
     = 92925 / 100 \<and>
   plannedPrincipal (hd (calculateSchedule 315000 (354 / 100) 360 (Date 2025 11 1) Map.empty))
     = 315000 / 360 \<and>
   plannedPrincipal (hd (calculateSchedule 315000 (354 / 100) 360 (Date 2025 11 1) Map.empty))
     = 875 \<and>
   plannedPayment (hd (calculateSchedule 315000 (354 / 100) 360 (Date 2025 11 1) Map.empty))
     = 180425 / 100 \<and>
   balanceAfter (hd (calculateSchedule 315000 (354 / 100) 360 (Date 2025 11 1) Map.empty))
     = 314125"
proof -
  have "calculateSchedule 315000 (354 / 100) 360 (Date 2025 11 1) Map.empty =
      scheduleLoop (354 / 100 / 100 / 12) 360 Map.empty 315000 1 (Date 2025 11 1) []"
    by (simp add: calculateSchedule_def)
  moreover have "\<exists>rest. scheduleLoop (354 / 100 / 100 / 12) 360 Map.empty 315000 1
        (Date 2025 11 1) [] =
      scheduleRow (354 / 100 / 100 / 12) 360 Map.empty 315000 1 (Date 2025 11 1) # rest"
    by (subst scheduleLoop_rows) (simp add: epsilon_def)
  ultimately obtain rest where
    "calculateSchedule 315000 (354 / 100) 360 (Date 2025 11 1) Map.empty =
      scheduleRow (354 / 100 / 100 / 12) 360 Map.empty 315000 1 (Date 2025 11 1) # rest"
    by auto
  then show ?thesis
    by (simp add: scheduleRow_def Let_def)
qed

end
